theory Spec2Isabelle
  imports Complex_Main
begin

section \<open>Go values shared by the three gist tools\<close>

text \<open>
  The file \<^verbatim>\<open>pkg/github/gists.go\<close> builds three tools: \<^verbatim>\<open>get_gist\<close>,
  \<^verbatim>\<open>list_gists\<close> and \<^verbatim>\<open>list_starred_gists\<close>. Each constructor returns a tool
  descriptor and a handler closure. The handlers talk to four collaborators: the
  parameter extractor, the client factory, the remote gist service and the JSON
  encoder. Everything they do to the outside world is written out here as a value:
  the calls that were issued, and the state of the response body at return.
\<close>

subsection \<open>Errors\<close>

text \<open>
  A Go \<^verbatim>\<open>error\<close> is either a plain message or the result of
  \<^verbatim>\<open>fmt.Errorf("<prefix>%w", err)\<close>, which keeps the wrapped error and prints as
  the prefix followed by the wrapped error's text.
\<close>

datatype go_error = ErrorString string | WrapError string go_error

fun Error :: "go_error \<Rightarrow> string" where
  "Error (ErrorString s) = s"
| "Error (WrapError pre e) = pre @ Error e"

fun Unwrap :: "go_error \<Rightarrow> go_error option" where
  "Unwrap (ErrorString s) = None"
| "Unwrap (WrapError pre e) = Some e"

subsection \<open>Invocation requests\<close>

text \<open>
  The arguments of a request are \<^verbatim>\<open>map[string]interface{}\<close> holding decoded JSON.
  A JSON number decodes to a \<^verbatim>\<open>float64\<close>; the handlers never compute with it, so
  it is carried as a real.
\<close>

datatype json_value =
    JNil
  | JBool bool
  | JNumber real
  | JString string
  | JArray "json_value list"
  | JObject "(string \<times> json_value) list"

record CallToolRequest =
  ParamsName :: string
  Arguments :: "string \<rightharpoonup> json_value"

subsection \<open>Invocation results\<close>

datatype mcp_Content = TextContent string

record CallToolResult =
  Content :: "mcp_Content list"
  IsError :: bool

definition NewToolResultText :: "string \<Rightarrow> CallToolResult" where
  "NewToolResultText text = \<lparr>Content = [TextContent text], IsError = False\<rparr>"

definition NewToolResultError :: "string \<Rightarrow> CallToolResult" where
  "NewToolResultError text = \<lparr>Content = [TextContent text], IsError = True\<rparr>"

subsection \<open>Tool descriptors\<close>

record ToolAnnotation =
  Title :: string
  ReadOnlyHint :: bool

record Property =
  prop_type :: string
  prop_description :: string

record Tool =
  Name :: string
  Description :: string
  Annotations :: ToolAnnotation
  Properties :: "string \<rightharpoonup> Property"
  Required :: "string list"

type_synonym ToolOption = "Tool \<Rightarrow> Tool"

datatype PropertyOption = mcp_Required | mcp_Description string

text \<open>
  A property option edits the schema under construction; \<^verbatim>\<open>mcp.Required()\<close>
  sets a flag that the tool option then moves into the tool's list of required names.
\<close>

fun apply_PropertyOption :: "PropertyOption \<Rightarrow> Property \<times> bool \<Rightarrow> Property \<times> bool" where
  "apply_PropertyOption mcp_Required (schema, required) = (schema, True)"
| "apply_PropertyOption (mcp_Description d) (schema, required) =
     (schema\<lparr>prop_description := d\<rparr>, required)"

definition NewTool :: "string \<Rightarrow> ToolOption list \<Rightarrow> Tool" where
  "NewTool name opts =
     fold (\<lambda>opt tool. opt tool) opts
       \<lparr>Name = name, Description = [], Annotations = \<lparr>Title = [], ReadOnlyHint = False\<rparr>,
        Properties = Map.empty, Required = []\<rparr>"

definition WithDescription :: "string \<Rightarrow> ToolOption" where
  "WithDescription d tool = tool\<lparr>Description := d\<rparr>"

definition WithToolAnnotation :: "ToolAnnotation \<Rightarrow> ToolOption" where
  "WithToolAnnotation a tool = tool\<lparr>Annotations := a\<rparr>"

definition WithNumber :: "string \<Rightarrow> PropertyOption list \<Rightarrow> ToolOption" where
  "WithNumber name popts tool =
     (case fold apply_PropertyOption popts
             (\<lparr>prop_type = ''number'', prop_description = []\<rparr>, False) of
        (schema, required) \<Rightarrow>
          tool\<lparr>Properties := (Properties tool)(name \<mapsto> schema),
               Required := (if required then Required tool @ [name] else Required tool)\<rparr>)"

text \<open>
  Modelled from the spec: \<^verbatim>\<open>WithPagination\<close> is defined elsewhere in the package
  and is not part of \<^verbatim>\<open>gists.go\<close>. The spec calls it the pagination-option builder
  that "supplies the declared page/page-size parameters for list operations": two
  optional numeric parameters, page number and page size.
\<close>

definition WithPagination :: ToolOption where
  "WithPagination tool =
     WithNumber ''perPage'' [mcp_Description ''Results per page for pagination'']
       (WithNumber ''page'' [mcp_Description ''Page number for pagination''] tool)"

subsection \<open>Parameter extraction\<close>

text \<open>
  Modelled from the spec: the generic helper \<^verbatim>\<open>requiredParam[T]\<close> is defined
  elsewhere in the package and is not part of \<^verbatim>\<open>gists.go\<close>, which uses it at
  \<^verbatim>\<open>T = string\<close>. The spec: the "parameter must be present and non-empty; absence
  or type mismatch fails with a ValidationError". The wording of the messages is
  not fixed by the spec; no statement below depends on it.
\<close>

definition requiredParam_string :: "CallToolRequest \<Rightarrow> string \<Rightarrow> go_error + string" where
  "requiredParam_string r p =
     (case Arguments r p of
        None \<Rightarrow> Inl (ErrorString (''missing required parameter: '' @ p))
      | Some (JString s) \<Rightarrow>
          if s = [] then Inl (ErrorString (''missing required parameter: '' @ p)) else Inr s
      | Some _ \<Rightarrow> Inl (ErrorString (''parameter '' @ p @ '' is not of type string'')))"

subsection \<open>HTTP responses\<close>

text \<open>
  \<^verbatim>\<open>resp.Body\<close> is a stream: the bytes not yet read, whether reading ends in a
  failure instead of end-of-file, and whether \<^verbatim>\<open>Close\<close> has been called on it.
  The transport uses \<^verbatim>\<open>http.NoBody\<close> for a response without content (a 204, or a
  content length of zero): it holds no bytes, and reading it gives the empty text and
  no error, also after \<^verbatim>\<open>Close\<close>. Any other body refuses to be read once closed.
\<close>

record ReadCloser =
  unread :: string
  read_failure :: "go_error option"
  closed :: bool
  no_body :: bool

record Response =
  StatusCode :: int
  Body :: ReadCloser

definition StatusOK :: int where
  "StatusOK = 200"

definition ReadAll :: "ReadCloser \<Rightarrow> (string \<times> go_error option) \<times> ReadCloser" where
  "ReadAll b =
     (if no_body b then (([], None), b)
      else if closed b then
        (([], Some (ErrorString ''http: read on closed response body'')), b)
      else ((unread b, read_failure b), b\<lparr>unread := []\<rparr>))"

definition Close :: "ReadCloser \<Rightarrow> ReadCloser" where
  "Close b = b\<lparr>closed := True\<rparr>"

definition NoBody :: ReadCloser where
  "NoBody = \<lparr>unread = [], read_failure = None, closed = False, no_body = True\<rparr>"

definition drained :: "ReadCloser \<Rightarrow> bool" where
  "drained b \<longleftrightarrow> no_body b \<or> (unread b = [] \<and> read_failure b = None)"

subsection \<open>The remote client\<close>

text \<open>
  \<^verbatim>\<open>GistListOptions\<close> of the client library: a time stamp and the embedded page
  options. Both list handlers pass \<^verbatim>\<open>nil\<close>.
\<close>

record GistListOptions =
  Since :: int
  Page :: int
  PerPage :: int

text \<open>
  A remote call returns \<^verbatim>\<open>(value, resp, err)\<close>. With \<^verbatim>\<open>err != nil\<close> the handlers
  look at neither the value nor the response (which may or may not be there); with
  \<^verbatim>\<open>err == nil\<close> the client library hands back a response with a body.
  The factory returns \<^verbatim>\<open>(client, err)\<close> in the same way.
\<close>

datatype 'a api_result = ApiError go_error "Response option" | ApiOK 'a Response

text \<open>What \<^verbatim>\<open>json.Marshal\<close> is applied to: a gist or a slice of gists.\<close>

datatype 'g any = Gist 'g | GistSlice "'g list"

record ('ctx, 'c, 'g) deps =
  getClient :: "'ctx \<Rightarrow> go_error + 'c"
  Gists_Get :: "'c \<Rightarrow> 'ctx \<Rightarrow> string \<Rightarrow> 'g api_result"
  Gists_ListStarred :: "'c \<Rightarrow> 'ctx \<Rightarrow> GistListOptions option \<Rightarrow> 'g list api_result"
  json_Marshal :: "'g any \<Rightarrow> go_error + string"

text \<open>The calls a handler issues, in order.\<close>

datatype ('ctx, 'c) call =
    GetClientCall 'ctx
  | GistsGetCall 'c 'ctx string
  | GistsListStarredCall 'c 'ctx "GistListOptions option"

fun is_network_call :: "('ctx, 'c) call \<Rightarrow> bool" where
  "is_network_call (GetClientCall ctx) = False"
| "is_network_call (GistsGetCall c ctx gid) = True"
| "is_network_call (GistsListStarredCall c ctx opts) = True"

definition network_calls :: "('ctx, 'c) call list \<Rightarrow> nat" where
  "network_calls cs = length (filter is_network_call cs)"

text \<open>
  What an invocation leaves behind: the returned pair \<^verbatim>\<open>(*CallToolResult, error)\<close>,
  the calls issued, and the response body (if the remote call handed one back) in
  the state it has when the handler returns.
\<close>

record ('ctx, 'c) outcome =
  result :: "CallToolResult option"
  err :: "go_error option"
  calls :: "('ctx, 'c) call list"
  body :: "ReadCloser option"

section \<open>The three tools\<close>

text \<open>
  \<^verbatim>\<open>defer func() { _ = resp.Body.Close() }()\<close> is registered once the remote call
  has returned without error; every return after that point closes the body.
\<close>

subsection \<open>GetGist\<close>

definition GetGist_tool :: "(string \<Rightarrow> string \<Rightarrow> string) \<Rightarrow> Tool" where
  "GetGist_tool t =
     NewTool ''get_gist''
       [WithDescription (t ''TOOL_GET_GIST_DESCRIPTION'' ''Get details of a specific gist in GitHub.''),
        WithToolAnnotation
          \<lparr>Title = t ''TOOL_GET_GIST_USER_TITLE'' ''Get gist details'', ReadOnlyHint = True\<rparr>,
        WithNumber ''gist_id'' [mcp_Required, mcp_Description ''The id of the gist to retrieve'']]"

definition GetGist_handler ::
  "('ctx, 'c, 'g) deps \<Rightarrow> 'ctx \<Rightarrow> CallToolRequest \<Rightarrow> ('ctx, 'c) outcome" where
  "GetGist_handler d ctx request =
     (case requiredParam_string request ''gist_id'' of
        Inl e \<Rightarrow>
          \<lparr>result = Some (NewToolResultError (Error e)), err = None, calls = [], body = None\<rparr>
      | Inr gistID \<Rightarrow>
         (case getClient d ctx of
            Inl e \<Rightarrow>
              \<lparr>result = None, err = Some (WrapError ''failed to get GitHub client: '' e),
               calls = [GetClientCall ctx], body = None\<rparr>
          | Inr client \<Rightarrow>
             (let cs = [GetClientCall ctx, GistsGetCall client ctx gistID] in
              case Gists_Get d client ctx gistID of
                ApiError e resp \<Rightarrow>
                  \<lparr>result = None, err = Some (WrapError ''failed to get gist: '' e),
                   calls = cs, body = map_option Body resp\<rparr>
              | ApiOK issue resp \<Rightarrow>
                  if StatusCode resp \<noteq> StatusOK then
                    (case ReadAll (Body resp) of
                       ((bytes, Some e), b) \<Rightarrow>
                         \<lparr>result = None, err = Some (WrapError ''failed to read response body: '' e),
                          calls = cs, body = Some (Close b)\<rparr>
                     | ((bytes, None), b) \<Rightarrow>
                         \<lparr>result = Some (NewToolResultError (''failed to get gist: '' @ bytes)),
                          err = None, calls = cs, body = Some (Close b)\<rparr>)
                  else
                    (case json_Marshal d (Gist issue) of
                       Inl e \<Rightarrow>
                         \<lparr>result = None, err = Some (WrapError ''failed to marshal gist: '' e),
                          calls = cs, body = Some (Close (Body resp))\<rparr>
                     | Inr r \<Rightarrow>
                         \<lparr>result = Some (NewToolResultText r), err = None,
                          calls = cs, body = Some (Close (Body resp))\<rparr>))))"

definition GetGist ::
  "('ctx, 'c, 'g) deps \<Rightarrow> (string \<Rightarrow> string \<Rightarrow> string) \<Rightarrow>
     Tool \<times> ('ctx \<Rightarrow> CallToolRequest \<Rightarrow> ('ctx, 'c) outcome)" where
  "GetGist d t = (GetGist_tool t, GetGist_handler d)"

subsection \<open>ListGists\<close>

definition ListGists_tool :: "(string \<Rightarrow> string \<Rightarrow> string) \<Rightarrow> Tool" where
  "ListGists_tool t =
     NewTool ''list_gists''
       [WithDescription (t ''TOOL_LIST_DESCRIPTION'' ''List the gists of the authenticated user.''),
        WithToolAnnotation
          \<lparr>Title = t ''TOOL_LIST_GISTS_USER_TITLE'' ''List gists'', ReadOnlyHint = True\<rparr>,
        WithPagination]"

definition ListGists_handler ::
  "('ctx, 'c, 'g) deps \<Rightarrow> 'ctx \<Rightarrow> CallToolRequest \<Rightarrow> ('ctx, 'c) outcome" where
  "ListGists_handler d ctx unused_request =
     (case getClient d ctx of
        Inl e \<Rightarrow>
          \<lparr>result = None, err = Some (WrapError ''failed to get GitHub client: '' e),
           calls = [GetClientCall ctx], body = None\<rparr>
      | Inr client \<Rightarrow>
         (let cs = [GetClientCall ctx, GistsListStarredCall client ctx None] in
          case Gists_ListStarred d client ctx None of
            ApiError e resp \<Rightarrow>
              \<lparr>result = None, err = Some (WrapError ''failed to list gists: '' e),
               calls = cs, body = map_option Body resp\<rparr>
          | ApiOK gists resp \<Rightarrow>
              if StatusCode resp \<noteq> StatusOK then
                (case ReadAll (Body resp) of
                   ((bytes, Some e), b) \<Rightarrow>
                     \<lparr>result = None, err = Some (WrapError ''failed to read response body: '' e),
                      calls = cs, body = Some (Close b)\<rparr>
                 | ((bytes, None), b) \<Rightarrow>
                     \<lparr>result = Some (NewToolResultError (''failed to list gists: '' @ bytes)),
                      err = None, calls = cs, body = Some (Close b)\<rparr>)
              else
                (case json_Marshal d (GistSlice gists) of
                   Inl e \<Rightarrow>
                     \<lparr>result = None, err = Some (WrapError ''failed to marshal gists: '' e),
                      calls = cs, body = Some (Close (Body resp))\<rparr>
                 | Inr r \<Rightarrow>
                     \<lparr>result = Some (NewToolResultText r), err = None,
                      calls = cs, body = Some (Close (Body resp))\<rparr>)))"

definition ListGists ::
  "('ctx, 'c, 'g) deps \<Rightarrow> (string \<Rightarrow> string \<Rightarrow> string) \<Rightarrow>
     Tool \<times> ('ctx \<Rightarrow> CallToolRequest \<Rightarrow> ('ctx, 'c) outcome)" where
  "ListGists d t = (ListGists_tool t, ListGists_handler d)"

subsection \<open>ListStarredGists\<close>

definition ListStarredGists_tool :: "(string \<Rightarrow> string \<Rightarrow> string) \<Rightarrow> Tool" where
  "ListStarredGists_tool t =
     NewTool ''list_starred_gists''
       [WithDescription
          (t ''TOOL_LIST_STARRED_DESCRIPTION'' ''List the starred gists of the authenticated user.''),
        WithToolAnnotation
          \<lparr>Title = t ''TOOL_LIST_STARRED_GISTS_USER_TITLE'' ''List starred gists'',
           ReadOnlyHint = True\<rparr>,
        WithPagination]"

definition ListStarredGists_handler ::
  "('ctx, 'c, 'g) deps \<Rightarrow> 'ctx \<Rightarrow> CallToolRequest \<Rightarrow> ('ctx, 'c) outcome" where
  "ListStarredGists_handler d ctx unused_request =
     (case getClient d ctx of
        Inl e \<Rightarrow>
          \<lparr>result = None, err = Some (WrapError ''failed to get GitHub client: '' e),
           calls = [GetClientCall ctx], body = None\<rparr>
      | Inr client \<Rightarrow>
         (let cs = [GetClientCall ctx, GistsListStarredCall client ctx None] in
          case Gists_ListStarred d client ctx None of
            ApiError e resp \<Rightarrow>
              \<lparr>result = None, err = Some (WrapError ''failed to list starred gists: '' e),
               calls = cs, body = map_option Body resp\<rparr>
          | ApiOK gists resp \<Rightarrow>
              if StatusCode resp \<noteq> StatusOK then
                (case ReadAll (Body resp) of
                   ((bytes, Some e), b) \<Rightarrow>
                     \<lparr>result = None, err = Some (WrapError ''failed to read response body: '' e),
                      calls = cs, body = Some (Close b)\<rparr>
                 | ((bytes, None), b) \<Rightarrow>
                     \<lparr>result = Some (NewToolResultError (''failed to list starred gists: '' @ bytes)),
                      err = None, calls = cs, body = Some (Close b)\<rparr>)
              else
                (case json_Marshal d (GistSlice gists) of
                   Inl e \<Rightarrow>
                     \<lparr>result = None, err = Some (WrapError ''failed to marshal starred gists: '' e),
                      calls = cs, body = Some (Close (Body resp))\<rparr>
                 | Inr r \<Rightarrow>
                     \<lparr>result = Some (NewToolResultText r), err = None,
                      calls = cs, body = Some (Close (Body resp))\<rparr>)))"

definition ListStarredGists ::
  "('ctx, 'c, 'g) deps \<Rightarrow> (string \<Rightarrow> string \<Rightarrow> string) \<Rightarrow>
     Tool \<times> ('ctx \<Rightarrow> CallToolRequest \<Rightarrow> ('ctx, 'c) outcome)" where
  "ListStarredGists d t = (ListStarredGists_tool t, ListStarredGists_handler d)"

section \<open>Reading an outcome\<close>

text \<open>
  The returned pair is well formed when exactly one component is there: a result that
  carries one text item, or an error.
\<close>

definition exactly_one_component :: "('ctx, 'c) outcome \<Rightarrow> bool" where
  "exactly_one_component out =
     (case (result out, err out) of
        (Some r, None) \<Rightarrow> length (Content r) = 1
      | (None, Some e) \<Rightarrow> True
      | (Some r, Some e) \<Rightarrow> False
      | (None, None) \<Rightarrow> False)"




text \<open>
  The texts in which the two list handlers differ: the wrapping prefix of a hard error
  and the leading text of a structured error. \<open>relabel_outcome\<close> rewrites the
  \<^verbatim>\<open>list_gists\<close> wording into the \<^verbatim>\<open>list_starred_gists\<close> wording and touches
  nothing else.
\<close>

definition relabel_prefix :: "string \<Rightarrow> string" where
  "relabel_prefix p =
     (if p = ''failed to list gists: '' then ''failed to list starred gists: ''
      else if p = ''failed to marshal gists: '' then ''failed to marshal starred gists: ''
      else p)"

fun relabel_error :: "go_error \<Rightarrow> go_error" where
  "relabel_error (ErrorString s) = ErrorString s"
| "relabel_error (WrapError p e) = WrapError (relabel_prefix p) e"

definition relabel_text :: "string \<Rightarrow> string" where
  "relabel_text s =
     (let p = ''failed to list gists: '' in
      if take (length p) s = p then relabel_prefix p @ drop (length p) s else s)"

fun relabel_content :: "mcp_Content \<Rightarrow> mcp_Content" where
  "relabel_content (TextContent s) = TextContent (relabel_text s)"

definition relabel_result :: "CallToolResult \<Rightarrow> CallToolResult" where
  "relabel_result r = (if IsError r then r\<lparr>Content := map relabel_content (Content r)\<rparr> else r)"

definition relabel_outcome :: "('ctx, 'c) outcome \<Rightarrow> ('ctx, 'c) outcome" where
  "relabel_outcome out =
     out\<lparr>result := map_option relabel_result (result out),
         err := map_option relabel_error (err out)\<rparr>"

section \<open>A fake client for concrete runs\<close>

text \<open>
  The scenarios of the spec use a fake client. Contexts are \<open>unit\<close>, clients are
  numbered, and a gist carries the two fields the scenarios mention. The encoder
  writes the fields that are set, in declaration order, as \<^verbatim>\<open>encoding/json\<close> does
  for \<^verbatim>\<open>omitempty\<close> string pointers; it is meant for texts without quotes,
  backslashes or control characters.
\<close>

record FakeGist =
  ID :: "string option"
  GistDescription :: "string option"

definition json_quote :: "string \<Rightarrow> string" where
  "json_quote s = CHR 0x22 # s @ [CHR 0x22]"

fun join_comma :: "string list \<Rightarrow> string" where
  "join_comma [] = []"
| "join_comma [x] = x"
| "join_comma (x # y # ys) = x @ '','' @ join_comma (y # ys)"

definition encode_FakeGist :: "FakeGist \<Rightarrow> string" where
  "encode_FakeGist g =
     ''{'' @ join_comma (List.map_filter (\<lambda>x. x)
        [map_option (\<lambda>s. json_quote ''id'' @ '':'' @ json_quote s) (ID g),
         map_option (\<lambda>s. json_quote ''description'' @ '':'' @ json_quote s) (GistDescription g)])
     @ ''}''"

fun fake_Marshal :: "FakeGist any \<Rightarrow> go_error + string" where
  "fake_Marshal (Gist g) = Inr (encode_FakeGist g)"
| "fake_Marshal (GistSlice gs) = Inr (''['' @ join_comma (map encode_FakeGist gs) @ '']'')"

definition fake_deps ::
  "go_error + nat \<Rightarrow> FakeGist api_result \<Rightarrow> FakeGist list api_result \<Rightarrow> (unit, nat, FakeGist) deps" where
  "fake_deps factory got listed =
     \<lparr>getClient = (\<lambda>ctx. factory),
      Gists_Get = (\<lambda>client ctx gistID. got),
      Gists_ListStarred = (\<lambda>client ctx opts. listed),
      json_Marshal = fake_Marshal\<rparr>"

definition demo_gist :: FakeGist where
  "demo_gist = \<lparr>ID = Some ''42'', GistDescription = Some ''demo''\<rparr>"

definition fresh_body :: "string \<Rightarrow> ReadCloser" where
  "fresh_body s = \<lparr>unread = s, read_failure = None, closed = False, no_body = False\<rparr>"

definition respond :: "int \<Rightarrow> string \<Rightarrow> Response" where
  "respond code s = \<lparr>StatusCode = code, Body = fresh_body s\<rparr>"

definition request_of :: "string \<Rightarrow> (string \<rightharpoonup> json_value) \<Rightarrow> CallToolRequest" where
  "request_of name args = \<lparr>ParamsName = name, Arguments = args\<rparr>"

text \<open>The scenarios: what the factory, the fetch and the listing answer.\<close>

definition demo_json :: string where
  \<open>demo_json = ''{"id":"42","description":"demo"}''\<close>

definition get_request :: CallToolRequest where
  "get_request = request_of ''get_gist'' [''gist_id'' \<mapsto> JString ''42'']"

definition paged_request :: "string \<Rightarrow> CallToolRequest" where
  "paged_request name = request_of name [''page'' \<mapsto> JNumber 2, ''perPage'' \<mapsto> JNumber 5]"

definition no_client_deps :: "(unit, nat, FakeGist) deps" where
  "no_client_deps =
     fake_deps (Inl (ErrorString ''no token''))
       (ApiOK demo_gist (respond 200 [])) (ApiOK [demo_gist] (respond 200 []))"

definition demo_deps :: "(unit, nat, FakeGist) deps" where
  "demo_deps =
     fake_deps (Inr 1)
       (ApiOK demo_gist (respond 200 demo_json)) (ApiOK [demo_gist] (respond 200 demo_json))"

text \<open>
  Hand-offs of the client library. Its \<^verbatim>\<open>Do\<close> reports every status outside 2xx as
  an error, after reading the body for the error it builds, and it closes the body of
  every response before returning it; with a status in 2xx it decodes the value from
  the body and leaves what the decoder did not read. \<open>handed_back left\<close> is such a
  body: closed, with \<open>left\<close> still unread.
\<close>

definition handed_back :: "string \<Rightarrow> ReadCloser" where
  "handed_back left = \<lparr>unread = left, read_failure = None, closed = True, no_body = False\<rparr>"

definition undecoded_rest :: string where
  \<open>undecoded_rest = ''{"id":"43","description":"sent after the gist, never decoded"}''\<close>

definition decoded_deps :: "(unit, nat, FakeGist) deps" where
  "decoded_deps =
     fake_deps (Inr 1)
       (ApiOK demo_gist \<lparr>StatusCode = 200, Body = handed_back undecoded_rest\<rparr>)
       (ApiOK [demo_gist] \<lparr>StatusCode = 200, Body = handed_back undecoded_rest\<rparr>)"

definition forbidden_get :: go_error where
  "forbidden_get = ErrorString ''GET https://api.github.com/gists/42: 403  []''"

definition forbidden_list :: go_error where
  "forbidden_list = ErrorString ''GET https://api.github.com/gists/starred: 403  []''"

definition forbidden_deps :: "(unit, nat, FakeGist) deps" where
  "forbidden_deps =
     fake_deps (Inr 1)
       (ApiError forbidden_get (Some \<lparr>StatusCode = 403, Body = handed_back []\<rparr>))
       (ApiError forbidden_list (Some \<lparr>StatusCode = 403, Body = handed_back []\<rparr>))"

definition no_content_deps :: "(unit, nat, FakeGist) deps" where
  "no_content_deps =
     fake_deps (Inr 1)
       (ApiOK \<lparr>ID = None, GistDescription = None\<rparr> \<lparr>StatusCode = 204, Body = Close NoBody\<rparr>)
       (ApiOK [] \<lparr>StatusCode = 204, Body = Close NoBody\<rparr>)"

definition untranslated :: "string \<Rightarrow> string \<Rightarrow> string" where
  "untranslated key default_text = default_text"

lemmas handler_defs = GetGist_handler_def ListGists_handler_def ListStarredGists_handler_def

lemmas fake_defs =
  fake_deps_def respond_def fresh_body_def request_of_def get_request_def paged_request_def
  no_client_deps_def demo_deps_def demo_gist_def demo_json_def untranslated_def
  handed_back_def undecoded_rest_def decoded_deps_def forbidden_get_def forbidden_list_def
  forbidden_deps_def no_content_deps_def NoBody_def

lemmas lib_defs =
  requiredParam_string_def ReadAll_def Close_def StatusOK_def drained_def
  NewToolResultText_def NewToolResultError_def network_calls_def

lemmas tool_defs =
  GetGist_tool_def ListGists_tool_def ListStarredGists_tool_def NewTool_def WithDescription_def
  WithToolAnnotation_def WithNumber_def WithPagination_def

section \<open>Properties of the handlers\<close>

subsection \<open>Client acquisition\<close>

text \<open>
  Claim C5. Whenever a handler asks the factory for a client and the factory answers
  with an error \<open>E\<close>, the handler returns no result and the hard error that wraps
  \<open>E\<close> behind the text "failed to get GitHub client", and the factory call is the only
  call of the invocation: nothing is sent to the remote service. The list handlers
  always ask the factory; \<^verbatim>\<open>get_gist\<close> asks it once its parameter has been extracted.
\<close>

theorem client_failure_is_hard_error:
  assumes "getClient d ctx = Inl E"
  shows "(GetClientCall ctx \<in> set (calls (GetGist_handler d ctx request)) \<longrightarrow>
           GetGist_handler d ctx request =
             \<lparr>result = None, err = Some (WrapError ''failed to get GitHub client: '' E),
              calls = [GetClientCall ctx], body = None\<rparr>)
       \<and> ListGists_handler d ctx request =
             \<lparr>result = None, err = Some (WrapError ''failed to get GitHub client: '' E),
              calls = [GetClientCall ctx], body = None\<rparr>
       \<and> ListStarredGists_handler d ctx request =
             \<lparr>result = None, err = Some (WrapError ''failed to get GitHub client: '' E),
              calls = [GetClientCall ctx], body = None\<rparr>
       \<and> network_calls [GetClientCall ctx] = 0
       \<and> Unwrap (WrapError ''failed to get GitHub client: '' E) = Some E
       \<and> Error (WrapError ''failed to get GitHub client: '' E) =
           ''failed to get GitHub client: '' @ Error E"
  using assms
  by (auto simp: handler_defs network_calls_def split: sum.splits)

theorem client_failure_is_hard_error_witness:
  "getClient no_client_deps () = Inl (ErrorString ''no token'')
   \<and> GetClientCall () \<in> set (calls (GetGist_handler no_client_deps () get_request))
   \<and> err (GetGist_handler no_client_deps () get_request) =
        Some (WrapError ''failed to get GitHub client: '' (ErrorString ''no token''))
   \<and> result (GetGist_handler no_client_deps () get_request) = None
   \<and> calls (GetGist_handler no_client_deps () get_request) = [GetClientCall ()]
   \<and> err (ListGists_handler no_client_deps () get_request) =
        Some (WrapError ''failed to get GitHub client: '' (ErrorString ''no token''))
   \<and> err (ListStarredGists_handler no_client_deps () get_request) =
        Some (WrapError ''failed to get GitHub client: '' (ErrorString ''no token''))
   \<and> Error (WrapError ''failed to get GitHub client: '' (ErrorString ''no token'')) =
        ''failed to get GitHub client: no token''"
proof -
  have f: "getClient no_client_deps () = Inl (ErrorString ''no token'')"
    by (simp add: fake_defs)
  have g: "GetClientCall () \<in> set (calls (GetGist_handler no_client_deps () get_request))"
    by (simp add: handler_defs fake_defs lib_defs)
  from client_failure_is_hard_error [OF f, of get_request] g
  have "GetGist_handler no_client_deps () get_request =
          \<lparr>result = None,
           err = Some (WrapError ''failed to get GitHub client: '' (ErrorString ''no token'')),
           calls = [GetClientCall ()], body = None\<rparr>"
    and "ListGists_handler no_client_deps () get_request =
          \<lparr>result = None,
           err = Some (WrapError ''failed to get GitHub client: '' (ErrorString ''no token'')),
           calls = [GetClientCall ()], body = None\<rparr>"
    and "ListStarredGists_handler no_client_deps () get_request =
          \<lparr>result = None,
           err = Some (WrapError ''failed to get GitHub client: '' (ErrorString ''no token'')),
           calls = [GetClientCall ()], body = None\<rparr>"
    by blast+
  with f show ?thesis
    by simp
qed

subsection \<open>Classifying the response\<close>

text \<open>
  Claim C2 and the code disagree. The server answers \<^verbatim>\<open>get_gist\<close> with status 403
  and the body "rate limited". The client library reads that body, closes it and
  returns the response together with an error, and the handler's check of the error
  comes before its check of the status: the handler returns no result and the hard
  error that wraps the library's error. The branch that would pass the body through
  as a structured error is not reached, and the text of the body appears nowhere in
  what the handler returns. The two list handlers do the same.
\<close>

theorem forbidden_status_returns_hard_error:
  "Gists_Get forbidden_deps 1 () ''42'' =
     ApiError forbidden_get (Some \<lparr>StatusCode = 403, Body = handed_back []\<rparr>)
   \<and> result (GetGist_handler forbidden_deps () get_request) = None
   \<and> err (GetGist_handler forbidden_deps () get_request) =
        Some (WrapError ''failed to get gist: '' forbidden_get)
   \<and> Error (WrapError ''failed to get gist: '' forbidden_get) =
        ''failed to get gist: GET https://api.github.com/gists/42: 403  []''
   \<and> result (ListGists_handler forbidden_deps () (paged_request ''list_gists'')) = None
   \<and> err (ListGists_handler forbidden_deps () (paged_request ''list_gists'')) =
        Some (WrapError ''failed to list gists: '' forbidden_list)
   \<and> result (ListStarredGists_handler forbidden_deps () (paged_request ''list_starred_gists'')) =
        None
   \<and> err (ListStarredGists_handler forbidden_deps () (paged_request ''list_starred_gists'')) =
        Some (WrapError ''failed to list starred gists: '' forbidden_list)"
  by (simp add: handler_defs fake_defs lib_defs)

text \<open>
  The pass-through branch is reached when the client returns no error: a 204 answer
  comes back without error and with \<^verbatim>\<open>http.NoBody\<close>, which reads as the empty text.
\<close>

lemma no_content_is_structured_error:
  "result (GetGist_handler no_content_deps () get_request) =
     Some (NewToolResultError ''failed to get gist: '')
   \<and> err (GetGist_handler no_content_deps () get_request) = None"
  by (simp add: handler_defs fake_defs lib_defs)

text \<open>
  Claim C3. When the remote call comes back with status 200 and the encoder turns the
  returned gist (or list of gists) into the text \<open>r\<close>, the handler returns a
  non-error result whose only content item is \<open>r\<close> itself: nothing is filtered,
  renamed or rewritten between the encoder and the result. With the fake client that
  answers \<^verbatim>\<open>get_gist\<close> for \<^verbatim>\<open>gist_id = "42"\<close> with the gist of id "42" and
  description "demo", the payload is the text written in \<open>demo_json\<close>.
\<close>

theorem success_payload_is_encoding:
  assumes "StatusCode resp = 200"
    and "getClient d ctx = Inr client"
  shows "(requiredParam_string request ''gist_id'' = Inr gid \<and>
            Gists_Get d client ctx gid = ApiOK issue resp \<and>
            json_Marshal d (Gist issue) = Inr r \<longrightarrow>
            result (GetGist_handler d ctx request) =
              Some \<lparr>Content = [TextContent r], IsError = False\<rparr> \<and>
            err (GetGist_handler d ctx request) = None)
       \<and> (Gists_ListStarred d client ctx None = ApiOK gists resp \<and>
            json_Marshal d (GistSlice gists) = Inr rs \<longrightarrow>
            result (ListGists_handler d ctx request) =
              Some \<lparr>Content = [TextContent rs], IsError = False\<rparr> \<and>
            err (ListGists_handler d ctx request) = None \<and>
            result (ListStarredGists_handler d ctx request) =
              Some \<lparr>Content = [TextContent rs], IsError = False\<rparr> \<and>
            err (ListStarredGists_handler d ctx request) = None)"
  using assms
  by (auto simp: handler_defs StatusOK_def Let_def NewToolResultText_def)

theorem success_payload_is_encoding_witness:
  "StatusCode (respond 200 demo_json) = 200
   \<and> getClient demo_deps () = Inr 1
   \<and> requiredParam_string get_request ''gist_id'' = Inr ''42''
   \<and> Gists_Get demo_deps 1 () ''42'' = ApiOK demo_gist (respond 200 demo_json)
   \<and> json_Marshal demo_deps (Gist demo_gist) = Inr demo_json
   \<and> Gists_ListStarred demo_deps 1 () None = ApiOK [demo_gist] (respond 200 demo_json)
   \<and> json_Marshal demo_deps (GistSlice [demo_gist]) = Inr (''['' @ demo_json @ '']'')
   \<and> result (GetGist_handler demo_deps () get_request) =
        Some \<lparr>Content = [TextContent demo_json], IsError = False\<rparr>
   \<and> err (GetGist_handler demo_deps () get_request) = None
   \<and> result (ListGists_handler demo_deps () get_request) =
        Some \<lparr>Content = [TextContent (''['' @ demo_json @ '']'')], IsError = False\<rparr>
   \<and> result (ListStarredGists_handler demo_deps () get_request) =
        Some \<lparr>Content = [TextContent (''['' @ demo_json @ '']'')], IsError = False\<rparr>"
proof -
  have s: "StatusCode (respond 200 demo_json) = 200"
    by (simp add: respond_def)
  have c: "getClient demo_deps () = Inr 1"
    by (simp add: demo_deps_def fake_deps_def)
  have p: "requiredParam_string get_request ''gist_id'' = Inr ''42''"
    by (simp add: fake_defs lib_defs)
  have g: "Gists_Get demo_deps 1 () ''42'' = ApiOK demo_gist (respond 200 demo_json)"
    by (simp add: demo_deps_def fake_deps_def)
  have m: "json_Marshal demo_deps (Gist demo_gist) = Inr demo_json"
    by (simp add: demo_deps_def fake_deps_def demo_gist_def demo_json_def encode_FakeGist_def
          json_quote_def List.map_filter_def)
  have l: "Gists_ListStarred demo_deps 1 () None = ApiOK [demo_gist] (respond 200 demo_json)"
    by (simp add: demo_deps_def fake_deps_def)
  have ms: "json_Marshal demo_deps (GistSlice [demo_gist]) = Inr (''['' @ demo_json @ '']'')"
    by (simp add: demo_deps_def fake_deps_def demo_gist_def demo_json_def encode_FakeGist_def
          json_quote_def List.map_filter_def)
  from success_payload_is_encoding [OF s c, of get_request "''42''" demo_gist demo_json
      "[demo_gist]" "''['' @ demo_json @ '']''"] p g m l ms
  have "result (GetGist_handler demo_deps () get_request) =
          Some \<lparr>Content = [TextContent demo_json], IsError = False\<rparr>"
    and "err (GetGist_handler demo_deps () get_request) = None"
    and "result (ListGists_handler demo_deps () get_request) =
          Some \<lparr>Content = [TextContent (''['' @ demo_json @ '']'')], IsError = False\<rparr>"
    and "result (ListStarredGists_handler demo_deps () get_request) =
          Some \<lparr>Content = [TextContent (''['' @ demo_json @ '']'')], IsError = False\<rparr>"
    by blast+
  with s c p g m l ms show ?thesis
    by simp
qed

subsection \<open>Calls per invocation\<close>

text \<open>
  Every path through a handler issues its calls in the same order: the factory first,
  then at most one call to the remote service.
\<close>

lemma GetGist_calls_cases:
  "calls (GetGist_handler d ctx request) = [] \<or>
   calls (GetGist_handler d ctx request) = [GetClientCall ctx] \<or>
   (\<exists>client gid. calls (GetGist_handler d ctx request) =
      [GetClientCall ctx, GistsGetCall client ctx gid])"
  by (cases "requiredParam_string request ''gist_id''"; cases "getClient d ctx";
      simp add: GetGist_handler_def Let_def
        split: api_result.splits prod.splits option.splits sum.splits)

lemma ListGists_calls_cases:
  "calls (ListGists_handler d ctx request) = [GetClientCall ctx] \<or>
   (\<exists>client. calls (ListGists_handler d ctx request) =
      [GetClientCall ctx, GistsListStarredCall client ctx None])"
  by (cases "getClient d ctx";
      simp add: ListGists_handler_def Let_def
        split: api_result.splits prod.splits option.splits sum.splits)

lemma ListStarredGists_calls_cases:
  "calls (ListStarredGists_handler d ctx request) = [GetClientCall ctx] \<or>
   (\<exists>client. calls (ListStarredGists_handler d ctx request) =
      [GetClientCall ctx, GistsListStarredCall client ctx None])"
  by (cases "getClient d ctx";
      simp add: ListStarredGists_handler_def Let_def
        split: api_result.splits prod.splits option.splits sum.splits)

lemma GetGist_calls_after_client:
  "requiredParam_string request ''gist_id'' = Inr gid \<Longrightarrow> getClient d ctx = Inr client \<Longrightarrow>
   calls (GetGist_handler d ctx request) = [GetClientCall ctx, GistsGetCall client ctx gid]"
  by (simp add: GetGist_handler_def Let_def split: api_result.splits prod.splits option.splits sum.splits)

lemma ListGists_calls_after_client:
  "getClient d ctx = Inr client \<Longrightarrow>
   calls (ListGists_handler d ctx request) =
     [GetClientCall ctx, GistsListStarredCall client ctx None]"
  by (simp add: ListGists_handler_def Let_def split: api_result.splits prod.splits option.splits sum.splits)

lemma ListStarredGists_calls_after_client:
  "getClient d ctx = Inr client \<Longrightarrow>
   calls (ListStarredGists_handler d ctx request) =
     [GetClientCall ctx, GistsListStarredCall client ctx None]"
  by (simp add: ListStarredGists_handler_def Let_def
        split: api_result.splits prod.splits option.splits sum.splits)

text \<open>
  Claim C8. No invocation issues more than one network call, on any path, so no call
  is repeated after a failure. Once the parameter has been extracted (for
  \<^verbatim>\<open>get_gist\<close>) and the factory has returned a client, exactly one network call is
  issued: the fetch of the requested gist, or the listing of the starred gists.
\<close>

theorem one_network_call:
  "network_calls (calls (GetGist_handler d ctx request)) \<le> 1
   \<and> network_calls (calls (ListGists_handler d ctx request)) \<le> 1
   \<and> network_calls (calls (ListStarredGists_handler d ctx request)) \<le> 1
   \<and> (requiredParam_string request ''gist_id'' = Inr gid \<and> getClient d ctx = Inr client \<longrightarrow>
        calls (GetGist_handler d ctx request) = [GetClientCall ctx, GistsGetCall client ctx gid] \<and>
        network_calls (calls (GetGist_handler d ctx request)) = 1)
   \<and> (getClient d ctx = Inr client \<longrightarrow>
        calls (ListGists_handler d ctx request) =
          [GetClientCall ctx, GistsListStarredCall client ctx None] \<and>
        network_calls (calls (ListGists_handler d ctx request)) = 1 \<and>
        calls (ListStarredGists_handler d ctx request) =
          [GetClientCall ctx, GistsListStarredCall client ctx None] \<and>
        network_calls (calls (ListStarredGists_handler d ctx request)) = 1)"
proof -
  have "network_calls (calls (GetGist_handler d ctx request)) \<le> 1"
    using GetGist_calls_cases [of d ctx request] by (auto simp: network_calls_def)
  moreover have "network_calls (calls (ListGists_handler d ctx request)) \<le> 1"
    using ListGists_calls_cases [of d ctx request] by (auto simp: network_calls_def)
  moreover have "network_calls (calls (ListStarredGists_handler d ctx request)) \<le> 1"
    using ListStarredGists_calls_cases [of d ctx request] by (auto simp: network_calls_def)
  ultimately show ?thesis
    by (simp add: GetGist_calls_after_client ListGists_calls_after_client
          ListStarredGists_calls_after_client network_calls_def)
qed

theorem one_network_call_witness:
  "requiredParam_string get_request ''gist_id'' = Inr ''42''
   \<and> getClient demo_deps () = Inr 1
   \<and> calls (GetGist_handler demo_deps () get_request) =
        [GetClientCall (), GistsGetCall 1 () ''42'']
   \<and> network_calls (calls (GetGist_handler demo_deps () get_request)) = 1
   \<and> calls (ListGists_handler demo_deps () get_request) =
        [GetClientCall (), GistsListStarredCall 1 () None]
   \<and> network_calls (calls (ListGists_handler demo_deps () get_request)) = 1
   \<and> network_calls (calls (ListStarredGists_handler demo_deps () get_request)) = 1"
proof -
  have p: "requiredParam_string get_request ''gist_id'' = Inr ''42''"
    by (simp add: fake_defs lib_defs)
  have c: "getClient demo_deps () = Inr 1"
    by (simp add: demo_deps_def fake_deps_def)
  from one_network_call [of demo_deps "()" get_request "''42''" 1] p c show ?thesis
    by blast
qed

text \<open>
  Claim C9. Each handler returns a pair with exactly one component: either a result
  carrying a single text item (the payload or the structured error) and no hard
  error, or no result and a hard error. It never returns both, and never neither.
\<close>

theorem exactly_one_component_returned:
  "exactly_one_component (GetGist_handler d ctx request)
   \<and> exactly_one_component (ListGists_handler d ctx request)
   \<and> exactly_one_component (ListStarredGists_handler d ctx request)"
proof (intro conjI)
  show "exactly_one_component (GetGist_handler d ctx request)"
    by (cases "requiredParam_string request ''gist_id''"; cases "getClient d ctx")
       (auto simp: GetGist_handler_def exactly_one_component_def Let_def
          NewToolResultText_def NewToolResultError_def
          split: api_result.splits prod.splits option.splits sum.splits)
  show "exactly_one_component (ListGists_handler d ctx request)"
    by (cases "getClient d ctx")
       (auto simp: ListGists_handler_def exactly_one_component_def Let_def
          NewToolResultText_def NewToolResultError_def
          split: api_result.splits prod.splits option.splits sum.splits)
  show "exactly_one_component (ListStarredGists_handler d ctx request)"
    by (cases "getClient d ctx")
       (auto simp: ListStarredGists_handler_def exactly_one_component_def Let_def
          NewToolResultText_def NewToolResultError_def
          split: api_result.splits prod.splits option.splits sum.splits)
qed

subsection \<open>Parameter validation\<close>

text \<open>
  The extractor accepts a parameter exactly when a non-empty string was supplied, and a
  rejected parameter ends \<^verbatim>\<open>get_gist\<close> before anything else happens.
\<close>

lemma requiredParam_string_Inr:
  "requiredParam_string r p = Inr s \<longleftrightarrow> Arguments r p = Some (JString s) \<and> s \<noteq> []"
  by (auto simp: requiredParam_string_def split: option.splits json_value.splits if_splits)

lemma GetGist_validation_failure:
  "requiredParam_string request ''gist_id'' = Inl e \<Longrightarrow>
   GetGist_handler d ctx request =
     \<lparr>result = Some (NewToolResultError (Error e)), err = None, calls = [], body = None\<rparr>"
  by (simp add: GetGist_handler_def)

lemma GetGist_calls_Nil:
  "calls (GetGist_handler d ctx request) = [] \<longleftrightarrow>
   (\<exists>e. requiredParam_string request ''gist_id'' = Inl e)"
  by (cases "requiredParam_string request ''gist_id''"; cases "getClient d ctx")
     (auto simp: GetGist_handler_def Let_def
        split: api_result.splits prod.splits option.splits sum.splits)

text \<open>
  Claim C4. When \<^verbatim>\<open>gist_id\<close> is absent, is the empty string, or is not a string,
  \<^verbatim>\<open>get_gist\<close> returns the structured error carrying the extractor's message and no
  hard error, and its call log is empty: neither the factory nor the remote service
  is reached. \<^verbatim>\<open>get_gist\<close> is the only tool that declares a required parameter; the
  two list tools declare none, and their handlers do not look at the request.
\<close>

theorem missing_parameter_short_circuits:
  assumes "Arguments request ''gist_id'' = None
         \<or> Arguments request ''gist_id'' = Some (JString [])
         \<or> (\<exists>v. Arguments request ''gist_id'' = Some v \<and> (\<forall>s. v \<noteq> JString s))"
  shows "(\<exists>e. requiredParam_string request ''gist_id'' = Inl e \<and>
            GetGist_handler d ctx request =
              \<lparr>result = Some (NewToolResultError (Error e)), err = None,
               calls = [], body = None\<rparr>)
       \<and> Required (GetGist_tool t) = [''gist_id'']
       \<and> Required (ListGists_tool t) = []
       \<and> Required (ListStarredGists_tool t) = []
       \<and> ListGists_handler d ctx request = ListGists_handler d ctx other_request
       \<and> ListStarredGists_handler d ctx request = ListStarredGists_handler d ctx other_request"
proof -
  from assms have "\<nexists>s. requiredParam_string request ''gist_id'' = Inr s"
    by (auto simp: requiredParam_string_Inr)
  then obtain e where e: "requiredParam_string request ''gist_id'' = Inl e"
    by (cases "requiredParam_string request ''gist_id''") auto
  have tools: "Required (GetGist_tool t) = [''gist_id'']"
    "Required (ListGists_tool t) = []" "Required (ListStarredGists_tool t) = []"
    by (simp_all add: tool_defs)
  have same: "ListGists_handler d ctx request = ListGists_handler d ctx other_request"
    "ListStarredGists_handler d ctx request = ListStarredGists_handler d ctx other_request"
    by (simp_all add: ListGists_handler_def ListStarredGists_handler_def)
  from e GetGist_validation_failure [OF e, of d ctx] tools same show ?thesis
    by blast
qed

theorem missing_parameter_short_circuits_witness:
  "Arguments (request_of ''get_gist'' Map.empty) ''gist_id'' = None
   \<and> calls (GetGist_handler demo_deps () (request_of ''get_gist'' Map.empty)) = []
   \<and> IsError (the (result (GetGist_handler demo_deps () (request_of ''get_gist'' Map.empty))))
   \<and> err (GetGist_handler demo_deps () (request_of ''get_gist'' Map.empty)) = None
   \<and> Arguments (request_of ''get_gist'' [''gist_id'' \<mapsto> JString []]) ''gist_id'' = Some (JString [])
   \<and> calls (GetGist_handler demo_deps ()
        (request_of ''get_gist'' [''gist_id'' \<mapsto> JString []])) = []
   \<and> Arguments (request_of ''get_gist'' [''gist_id'' \<mapsto> JBool True]) ''gist_id'' = Some (JBool True)
   \<and> calls (GetGist_handler demo_deps ()
        (request_of ''get_gist'' [''gist_id'' \<mapsto> JBool True])) = []"
proof -
  have a: "Arguments (request_of ''get_gist'' Map.empty) ''gist_id'' = None"
    by (simp add: request_of_def)
  have b: "Arguments (request_of ''get_gist'' [''gist_id'' \<mapsto> JString []]) ''gist_id'' =
      Some (JString [])"
    by (simp add: request_of_def)
  have c: "Arguments (request_of ''get_gist'' [''gist_id'' \<mapsto> JBool True]) ''gist_id'' =
      Some (JBool True)"
    by (simp add: request_of_def)
  have c': "\<exists>v. Arguments (request_of ''get_gist'' [''gist_id'' \<mapsto> JBool True]) ''gist_id'' = Some v
      \<and> (\<forall>s. v \<noteq> JString s)"
    using c by simp
  from missing_parameter_short_circuits [of "request_of ''get_gist'' Map.empty" demo_deps "()"] a
  obtain e1 where "GetGist_handler demo_deps () (request_of ''get_gist'' Map.empty) =
      \<lparr>result = Some (NewToolResultError (Error e1)), err = None, calls = [], body = None\<rparr>"
    by blast
  moreover
  from missing_parameter_short_circuits
    [of "request_of ''get_gist'' [''gist_id'' \<mapsto> JString []]" demo_deps "()"] b
  obtain e2 where "GetGist_handler demo_deps () (request_of ''get_gist'' [''gist_id'' \<mapsto> JString []]) =
      \<lparr>result = Some (NewToolResultError (Error e2)), err = None, calls = [], body = None\<rparr>"
    by blast
  moreover
  from missing_parameter_short_circuits
    [of "request_of ''get_gist'' [''gist_id'' \<mapsto> JBool True]" demo_deps "()"] c'
  obtain e3 where "GetGist_handler demo_deps () (request_of ''get_gist'' [''gist_id'' \<mapsto> JBool True]) =
      \<lparr>result = Some (NewToolResultError (Error e3)), err = None, calls = [], body = None\<rparr>"
    by blast
  ultimately show ?thesis
    using a b c by (simp add: NewToolResultError_def)
qed

text \<open>
  Claim C10. The descriptor of \<^verbatim>\<open>get_gist\<close> declares \<^verbatim>\<open>gist_id\<close> as a required
  parameter of schema type "number", but the handler extracts it as a string. A
  request that supplies \<^verbatim>\<open>gist_id\<close> as a number is answered with a structured error
  and no call at all; a request gets past validation only if \<^verbatim>\<open>gist_id\<close> is a string.
\<close>

theorem numeric_gist_id_rejected:
  "Properties (GetGist_tool t) ''gist_id'' =
     Some \<lparr>prop_type = ''number'', prop_description = ''The id of the gist to retrieve''\<rparr>
   \<and> ''gist_id'' \<in> set (Required (GetGist_tool t))
   \<and> (Arguments request ''gist_id'' = Some (JNumber n) \<longrightarrow>
        (\<exists>e. GetGist_handler d ctx request =
           \<lparr>result = Some (NewToolResultError (Error e)), err = None, calls = [], body = None\<rparr>)
        \<and> network_calls (calls (GetGist_handler d ctx request)) = 0)
   \<and> (calls (GetGist_handler d ctx other_request) \<noteq> [] \<longrightarrow>
        (\<exists>s. Arguments other_request ''gist_id'' = Some (JString s)))"
proof -
  have tool: "Properties (GetGist_tool t) ''gist_id'' =
     Some \<lparr>prop_type = ''number'', prop_description = ''The id of the gist to retrieve''\<rparr>"
    "''gist_id'' \<in> set (Required (GetGist_tool t))"
    by (simp_all add: tool_defs)
  have num: "\<exists>e. GetGist_handler d ctx request =
           \<lparr>result = Some (NewToolResultError (Error e)), err = None, calls = [], body = None\<rparr>"
    if "Arguments request ''gist_id'' = Some (JNumber n)"
  proof -
    from that have "requiredParam_string request ''gist_id'' =
        Inl (ErrorString (''parameter '' @ ''gist_id'' @ '' is not of type string''))"
      by (simp add: requiredParam_string_def)
    from GetGist_validation_failure [OF this, of d ctx] show ?thesis
      by blast
  qed
  have str: "\<exists>s. Arguments other_request ''gist_id'' = Some (JString s)"
    if "calls (GetGist_handler d ctx other_request) \<noteq> []"
  proof -
    from that obtain s where "requiredParam_string other_request ''gist_id'' = Inr s"
      by (cases "requiredParam_string other_request ''gist_id''") (auto simp: GetGist_calls_Nil)
    then show ?thesis
      by (auto simp: requiredParam_string_Inr)
  qed
  from tool num str show ?thesis
    by (auto simp: network_calls_def)
qed

theorem numeric_gist_id_rejected_witness:
  "Arguments (request_of ''get_gist'' [''gist_id'' \<mapsto> JNumber 42]) ''gist_id'' = Some (JNumber 42)
   \<and> calls (GetGist_handler demo_deps () (request_of ''get_gist'' [''gist_id'' \<mapsto> JNumber 42])) = []
   \<and> IsError (the (result (GetGist_handler demo_deps ()
        (request_of ''get_gist'' [''gist_id'' \<mapsto> JNumber 42]))))
   \<and> calls (GetGist_handler demo_deps () get_request) \<noteq> []
   \<and> (\<exists>s. Arguments get_request ''gist_id'' = Some (JString s))"
proof -
  have a: "Arguments (request_of ''get_gist'' [''gist_id'' \<mapsto> JNumber 42]) ''gist_id'' =
      Some (JNumber 42)"
    by (simp add: request_of_def)
  have b: "calls (GetGist_handler demo_deps () get_request) \<noteq> []"
    by (simp add: GetGist_handler_def fake_defs lib_defs)
  from numeric_gist_id_rejected
    [of _ "request_of ''get_gist'' [''gist_id'' \<mapsto> JNumber 42]" 42 demo_deps "()" get_request] a b
  obtain e where "GetGist_handler demo_deps () (request_of ''get_gist'' [''gist_id'' \<mapsto> JNumber 42]) =
      \<lparr>result = Some (NewToolResultError (Error e)), err = None, calls = [], body = None\<rparr>"
    and "\<exists>s. Arguments get_request ''gist_id'' = Some (JString s)"
    by blast
  with a b show ?thesis
    by (simp add: NewToolResultError_def)
qed

subsection \<open>The response body\<close>









text \<open>
  Claim C7 and the code disagree. Both list tools declare the pagination parameters
  \<^verbatim>\<open>page\<close> and \<^verbatim>\<open>perPage\<close>, yet for a request that supplies page 2 with 5 entries per
  page both handlers call the remote listing with \<^verbatim>\<open>nil\<close> options: the supplied
  values never reach the remote call.
\<close>

theorem pagination_dropped_at_failing_input:
  "dom (Properties (ListGists_tool untranslated)) = {''page'', ''perPage''}
   \<and> dom (Properties (ListStarredGists_tool untranslated)) = {''page'', ''perPage''}
   \<and> Arguments (paged_request ''list_gists'') ''page'' = Some (JNumber 2)
   \<and> Arguments (paged_request ''list_gists'') ''perPage'' = Some (JNumber 5)
   \<and> calls (ListGists_handler demo_deps () (paged_request ''list_gists'')) =
        [GetClientCall (), GistsListStarredCall 1 () None]
   \<and> calls (ListStarredGists_handler demo_deps () (paged_request ''list_starred_gists'')) =
        [GetClientCall (), GistsListStarredCall 1 () None]"
  by (auto simp: handler_defs fake_defs lib_defs tool_defs)

subsection \<open>The two list tools\<close>

lemma relabel_text_list: "relabel_text (''failed to list gists: '' @ B) = ''failed to list starred gists: '' @ B"
  by (simp add: relabel_text_def relabel_prefix_def)

lemma relabel_NewToolResultError:
  "relabel_result (NewToolResultError (''failed to list gists: '' @ B)) =
   NewToolResultError (''failed to list starred gists: '' @ B)"
  using relabel_text_list [of B]
  by (simp add: relabel_result_def NewToolResultError_def)

lemma relabel_NewToolResultText: "relabel_result (NewToolResultText r) = NewToolResultText r"
  by (simp add: relabel_result_def NewToolResultText_def)

lemma relabel_prefix_simps:
  "relabel_prefix ''failed to list gists: '' = ''failed to list starred gists: ''"
  "relabel_prefix ''failed to marshal gists: '' = ''failed to marshal starred gists: ''"
  "relabel_prefix ''failed to get GitHub client: '' = ''failed to get GitHub client: ''"
  "relabel_prefix ''failed to read response body: '' = ''failed to read response body: ''"
  by (simp_all add: relabel_prefix_def)

lemma ListStarredGists_relabel:
  "ListStarredGists_handler d ctx request' = relabel_outcome (ListGists_handler d ctx request)"
proof (cases "getClient d ctx")
  case (Inl e)
  then show ?thesis
    by (simp add: ListGists_handler_def ListStarredGists_handler_def relabel_outcome_def
          relabel_prefix_simps)
next
  case (Inr client)
  show ?thesis
  proof (cases "Gists_ListStarred d client ctx None")
    case (ApiError e oresp)
    with Inr show ?thesis
      by (simp add: ListGists_handler_def ListStarredGists_handler_def relabel_outcome_def
            relabel_prefix_simps)
  next
    case (ApiOK gists resp)
    show ?thesis
    proof (cases "StatusCode resp = StatusOK")
      case True
      with Inr ApiOK show ?thesis
        by (cases "json_Marshal d (GistSlice gists)")
           (simp_all add: ListGists_handler_def ListStarredGists_handler_def relabel_outcome_def
              relabel_prefix_simps relabel_NewToolResultText)
    next
      case False
      obtain bytes oe b where "ReadAll (Body resp) = ((bytes, oe), b)"
        by (metis prod.exhaust)
      with False Inr ApiOK show ?thesis
        by (cases oe)
           (simp_all add: ListGists_handler_def ListStarredGists_handler_def relabel_outcome_def
              relabel_prefix_simps relabel_NewToolResultError [simplified])
    qed
  qed
qed

text \<open>
  Claim C1. For every context and every client the factory returns, \<^verbatim>\<open>list_gists\<close>
  and \<^verbatim>\<open>list_starred_gists\<close> issue the same calls: the factory call followed by the
  one remote call that lists the starred gists, with \<^verbatim>\<open>nil\<close> options. On a 200
  response whose list the encoder turns into \<open>r\<close>, both return the same outcome with
  the payload \<open>r\<close>. On every path the outcome of \<^verbatim>\<open>list_starred_gists\<close> is the
  outcome of \<^verbatim>\<open>list_gists\<close> with the wording of the error prefix exchanged
  ("failed to list gists" against "failed to list starred gists", "failed to marshal
  gists" against "failed to marshal starred gists"); calls, body and payload agree.
\<close>

theorem list_handlers_same_remote_call:
  "calls (ListStarredGists_handler d ctx request') = calls (ListGists_handler d ctx request)
   \<and> body (ListStarredGists_handler d ctx request') = body (ListGists_handler d ctx request)
   \<and> (getClient d ctx = Inr client \<longrightarrow>
        calls (ListGists_handler d ctx request) =
          [GetClientCall ctx, GistsListStarredCall client ctx None])
   \<and> (getClient d ctx = Inr client \<and>
       Gists_ListStarred d client ctx None = ApiOK gists resp \<and> StatusCode resp = 200 \<and>
       json_Marshal d (GistSlice gists) = Inr r \<longrightarrow>
        result (ListGists_handler d ctx request) = Some (NewToolResultText r) \<and>
        err (ListGists_handler d ctx request) = None \<and>
        ListStarredGists_handler d ctx request' = ListGists_handler d ctx request)
   \<and> ListStarredGists_handler d ctx request' = relabel_outcome (ListGists_handler d ctx request)"
proof -
  have rel: "ListStarredGists_handler d ctx request' =
      relabel_outcome (ListGists_handler d ctx request)"
    by (rule ListStarredGists_relabel)
  have same: "calls (ListStarredGists_handler d ctx request') =
      calls (ListGists_handler d ctx request)"
    "body (ListStarredGists_handler d ctx request') = body (ListGists_handler d ctx request)"
    by (simp_all add: rel relabel_outcome_def)
  have ok: "result (ListGists_handler d ctx request) = Some (NewToolResultText r) \<and>
        err (ListGists_handler d ctx request) = None \<and>
        ListStarredGists_handler d ctx request' = ListGists_handler d ctx request"
    if "getClient d ctx = Inr client" "Gists_ListStarred d client ctx None = ApiOK gists resp"
      "StatusCode resp = 200" "json_Marshal d (GistSlice gists) = Inr r"
    using that
    by (simp add: ListGists_handler_def ListStarredGists_handler_def StatusOK_def)
  from rel same ok ListGists_calls_after_client [of d ctx client request] show ?thesis
    by blast
qed

theorem list_handlers_same_remote_call_witness:
  "getClient demo_deps () = Inr 1
   \<and> Gists_ListStarred demo_deps 1 () None = ApiOK [demo_gist] (respond 200 demo_json)
   \<and> StatusCode (respond 200 demo_json) = 200
   \<and> json_Marshal demo_deps (GistSlice [demo_gist]) = Inr (''['' @ demo_json @ '']'')
   \<and> calls (ListGists_handler demo_deps () (paged_request ''list_gists'')) =
        [GetClientCall (), GistsListStarredCall 1 () None]
   \<and> calls (ListStarredGists_handler demo_deps () (paged_request ''list_starred_gists'')) =
        [GetClientCall (), GistsListStarredCall 1 () None]
   \<and> result (ListGists_handler demo_deps () (paged_request ''list_gists'')) =
        Some (NewToolResultText (''['' @ demo_json @ '']''))
   \<and> result (ListStarredGists_handler demo_deps () (paged_request ''list_starred_gists'')) =
        Some (NewToolResultText (''['' @ demo_json @ '']''))"
proof -
  have c: "getClient demo_deps () = Inr 1"
    by (simp add: demo_deps_def fake_deps_def)
  have l: "Gists_ListStarred demo_deps 1 () None = ApiOK [demo_gist] (respond 200 demo_json)"
    by (simp add: demo_deps_def fake_deps_def)
  have s: "StatusCode (respond 200 demo_json) = 200"
    by (simp add: respond_def)
  have m: "json_Marshal demo_deps (GistSlice [demo_gist]) = Inr (''['' @ demo_json @ '']'')"
    by (simp add: demo_deps_def fake_deps_def demo_gist_def demo_json_def encode_FakeGist_def
          json_quote_def List.map_filter_def)
  from list_handlers_same_remote_call
    [of demo_deps "()" "paged_request ''list_starred_gists''" "paged_request ''list_gists''" 1
        "[demo_gist]" "respond 200 demo_json" "''['' @ demo_json @ '']''"] c l s m
  have "calls (ListStarredGists_handler demo_deps () (paged_request ''list_starred_gists'')) =
          calls (ListGists_handler demo_deps () (paged_request ''list_gists''))"
    and "calls (ListGists_handler demo_deps () (paged_request ''list_gists'')) =
          [GetClientCall (), GistsListStarredCall 1 () None]"
    and "result (ListGists_handler demo_deps () (paged_request ''list_gists'')) =
          Some (NewToolResultText (''['' @ demo_json @ '']''))"
    and "ListStarredGists_handler demo_deps () (paged_request ''list_starred_gists'') =
          ListGists_handler demo_deps () (paged_request ''list_gists'')"
    by blast+
  with c l s m show ?thesis
    by simp
qed

end
